theory Spec2Isabelle
  imports Main "HOL-Library.AList"
begin

section \<open>The \<open>run\<close> command of the command line interface\<close>

text \<open>
  This theory embeds \<open>RunCommand.run\<close>: the command that validates its arguments, starts
  the local development server as a child process, waits until the server announces
  itself on its standard output (or a watchdog fires), sends one HTTP request, consumes
  the events of the streamed response, and prints the result.

  Strings are \<open>char list\<close>s read as ASCII text. Everything the command does to the
  outside world is recorded, in order, in a list of effects. Everything the outside world
  decides (what the child prints and when timers fire, what the server answers, whether
  a kill succeeds) is an explicit argument of the model.
\<close>

subsection \<open>String operations of the host language\<close>

definition startsWith :: "string \<Rightarrow> string \<Rightarrow> bool" where
  "startsWith s p = (take (length p) s = p)"

definition slice :: "string \<Rightarrow> nat \<Rightarrow> string" where
  "slice s n = drop n s"

text \<open>\<open>s.includes(sub)\<close>: \<open>sub\<close> occurs in \<open>s\<close> as a contiguous run.\<close>

fun includes_str :: "string \<Rightarrow> string \<Rightarrow> bool" where
  "includes_str [] sub = (sub = [])"
| "includes_str (c # cs) sub = (startsWith (c # cs) sub \<or> includes_str cs sub)"

text \<open>\<open>xs.join(sep)\<close> on an array of strings.\<close>

fun join :: "string \<Rightarrow> string list \<Rightarrow> string" where
  "join sep [] = []"
| "join sep [x] = x"
| "join sep (x # y # ys) = x @ sep @ join sep (y # ys)"

text \<open>
  \<open>s.split('\n')\<close>: the pieces between line feeds; never an empty array
  (\<open>''.split('\n')\<close> is \<open>['']\<close>).
\<close>

fun split_lines :: "string \<Rightarrow> string list" where
  "split_lines [] = [[]]"
| "split_lines (c # cs) =
     (if c = CHR 0x0A then [] # split_lines cs
      else (case split_lines cs of
              [] \<Rightarrow> [[c]]
            | l # ls \<Rightarrow> (c # l) # ls))"

text \<open>Case conversion, on the letters of ASCII.\<close>

definition toLowerCase :: "string \<Rightarrow> string" where
  "toLowerCase s =
     map (\<lambda>c. case map_of (zip ''ABCDEFGHIJKLMNOPQRSTUVWXYZ'' ''abcdefghijklmnopqrstuvwxyz'') c of
                None \<Rightarrow> c | Some d \<Rightarrow> d) s"

definition toUpperCase :: "string \<Rightarrow> string" where
  "toUpperCase s =
     map (\<lambda>c. case map_of (zip ''abcdefghijklmnopqrstuvwxyz'' ''ABCDEFGHIJKLMNOPQRSTUVWXYZ'') c of
                None \<Rightarrow> c | Some d \<Rightarrow> d) s"

subsection \<open>Command parameters and errors\<close>

text \<open>
  \<open>params.flags\<close> maps a flag to the array of words after it, \<open>params.vflags\<close> likewise
  for named flags (kept as its entries, in \<open>Object.keys\<close> order), \<open>params.args\<close> are
  the positional arguments.
\<close>

record params =
  flags :: "string \<rightharpoonup> string list"
  vflags :: "(string \<times> string list) list"
  args :: "string list"

text \<open>
  What the command can throw: \<open>Error\<close> is \<open>throw new Error(message)\<close> of the command
  itself; \<open>TypeError\<close> is raised by the language runtime (the text is the engine's);
  \<open>SyntaxError\<close> is raised by \<open>JSON.parse\<close> and carries the text that did not parse;
  \<open>RequestFailed\<close> and \<open>KillFailed\<close> are rejections of the two library calls.
\<close>

datatype error =
    Error string
  | TypeError string
  | SyntaxError string
  | RequestFailed
  | KillFailed

text \<open>
  What validation leaves for the rest of the command: the variables \<open>method\<close> (here
  \<open>req_method\<close>), \<open>functionParams\<close> and \<open>pathname\<close>.
\<close>

record invocation =
  req_method :: string
  functionParams :: "(string \<times> string) list"
  pathname :: string

subsection \<open>Argument validation\<close>

text \<open>\<open>((params.flags['m'] || [])[0] || 'get').toLowerCase()\<close>\<close>

definition method_of :: "params \<Rightarrow> string" where
  "method_of p =
     toLowerCase
       (case (case flags p ''m'' of None \<Rightarrow> [] | Some ws \<Rightarrow> ws) of
          [] \<Rightarrow> ''get''
        | w # _ \<Rightarrow> if w = [] then ''get'' else w)"

definition supported_methods :: "string list" where
  "supported_methods = [''get'', ''post'', ''put'', ''delete'', ''del'']"

text \<open>
  The \<open>reduce\<close> over \<open>Object.keys(params.vflags)\<close>: each key is assigned the words of
  its flag joined with one space.
\<close>

definition functionParams_of :: "(string \<times> string list) list \<Rightarrow> (string \<times> string) list" where
  "functionParams_of vfs =
     foldl (\<lambda>acc (key, ws). AList.update key (join '' '' ws) acc) [] vfs"

text \<open>\<open>params.args[0] || ''\<close>\<close>

definition pathname_arg :: "params \<Rightarrow> string" where
  "pathname_arg p = (case args p of [] \<Rightarrow> [] | a # _ \<Rightarrow> a)"

text \<open>The two \<open>startsWith\<close>/\<open>slice(1)\<close> steps applied to an accepted pathname.\<close>

definition normalize_pathname :: "string \<Rightarrow> string" where
  "normalize_pathname pn =
     (let pn1 = (if startsWith pn ''.'' then slice pn 1 else pn);
          pn2 = (if startsWith pn1 ''/'' then slice pn1 1 else pn1)
      in pn2)"

text \<open>
  Validation, in the order of the source. \<open>method\<close> is declared \<open>const\<close>, so the
  assignment \<open>method = 'delete'\<close> raises a \<open>TypeError\<close> when it is executed.
\<close>

definition validate :: "params \<Rightarrow> error + invocation" where
  \<open>validate p =
     (let m = method_of p in
      if m \<notin> set supported_methods then
        Inl (Error (''Method "'' @ m @ ''" not supported.''))
      else if m = ''del'' then
        Inl (TypeError ''Assignment to constant variable.'')
      else
        let fps = functionParams_of (vflags p);
            pn = pathname_arg p
        in if pn = [] then
             Inl (Error (''Please provide a pathname as the first argument.\<newline>'' @
                         ''Use "/" to execute the root method (index.js)''))
           else if startsWith pn ''..'' then
             Inl (Error (''Invalid pathname: "'' @ pn @ ''"''))
           else
             Inr \<lparr>req_method = m, functionParams = fps, pathname = normalize_pathname pn\<rparr>)\<close>

subsection \<open>JSON values\<close>

text \<open>
  The values \<open>JSON.parse\<close> produces. A number is held as the text that
  \<open>Number.prototype.toString\<close> gives for it; an object holds each key once.
\<close>

datatype json =
    JNull
  | JBool bool
  | JNumber string
  | JString string
  | JArray "json list"
  | JObject "(string \<times> json) list"

text \<open>
  \<open>JSON.parse\<close> (\<open>None\<close> when it throws a \<open>SyntaxError\<close>) and
  \<open>JSON.stringify(value, null, 2)\<close> belong to the language runtime and are taken as
  parameters.
\<close>

record runtime =
  JSON_parse :: "string \<Rightarrow> json option"
  JSON_stringify :: "json \<Rightarrow> string"

text \<open>
  String conversion of a value: \<open>v.toString()\<close> for a value other than \<open>null\<close>, and the
  conversion that \<open>+\<close> and \<open>Array.prototype.join\<close> apply. The result is \<open>None\<close> when
  the conversion raises a \<open>TypeError\<close>: a parsed value is never a function, so an object
  that has a key \<open>toString\<close> of its own has no callable \<open>toString\<close> (and its \<open>valueOf\<close>
  yields no primitive). An array joins the conversions of its elements with commas, an
  element \<open>null\<close> counting as the empty string.
\<close>

fun String_of :: "json \<Rightarrow> string option" where
  "String_of JNull = Some ''null''"
| "String_of (JBool b) = Some (if b then ''true'' else ''false'')"
| "String_of (JNumber n) = Some n"
| "String_of (JString s) = Some s"
| "String_of (JArray xs) =
     map_option (join '','')
       (those (map (\<lambda>x. if x = JNull then Some [] else String_of x) xs))"
| "String_of (JObject kvs) =
     (if map_of kvs ''toString'' = None then Some ''[object Object]'' else None)"

text \<open>Truthiness of a value, as \<open>if (json)\<close> tests it.\<close>

fun truthy :: "json \<Rightarrow> bool" where
  "truthy JNull = False"
| "truthy (JBool b) = b"
| "truthy (JNumber n) = (n \<noteq> ''0'')"
| "truthy (JString s) = (s \<noteq> [])"
| "truthy (JArray xs) = True"
| "truthy (JObject kvs) = True"

text \<open>
  Property read \<open>v.key\<close> on a value other than \<open>null\<close>, for the keys the command reads
  (\<open>body\<close> and \<open>statusCode\<close>, which only an object can have); \<open>None\<close> is
  \<open>undefined\<close>.
\<close>

fun property :: "json \<Rightarrow> string \<Rightarrow> json option" where
  "property (JObject kvs) key = map_of kvs key"
| "property v key = None"

text \<open>
  \<open>JSON.stringify\<close> of an object whose values are strings: the string quoting of the
  language standard, compact and with an indent of two spaces.
\<close>

definition hex_digit :: "nat \<Rightarrow> char" where
  "hex_digit n = ''0123456789abcdef'' ! (n mod 16)"

definition escape_char :: "char \<Rightarrow> string" where
  \<open>escape_char c =
     (if c = CHR 0x22 then [CHR 0x5C, CHR 0x22]
      else if c = CHR 0x5C then [CHR 0x5C, CHR 0x5C]
      else if c = CHR 0x08 then [CHR 0x5C, CHR ''b'']
      else if c = CHR 0x0C then [CHR 0x5C, CHR ''f'']
      else if c = CHR 0x0A then [CHR 0x5C, CHR ''n'']
      else if c = CHR 0x0D then [CHR 0x5C, CHR ''r'']
      else if c = CHR 0x09 then [CHR 0x5C, CHR ''t'']
      else if (of_char c :: nat) < 32 then
        [CHR 0x5C, CHR ''u'', CHR ''0'', CHR ''0'',
         hex_digit ((of_char c :: nat) div 16), hex_digit (of_char c :: nat)]
      else [c])\<close>

definition quote_json :: "string \<Rightarrow> string" where
  \<open>quote_json s = [CHR 0x22] @ concat (map escape_char s) @ [CHR 0x22]\<close>

definition stringify_params :: "(string \<times> string) list \<Rightarrow> string" where
  "stringify_params fps =
     ''{'' @ join '','' (map (\<lambda>(k, v). quote_json k @ '':'' @ quote_json v) fps) @ ''}''"

definition stringify_params_pretty :: "(string \<times> string) list \<Rightarrow> string" where
  "stringify_params_pretty fps =
     (if fps = [] then ''{}''
      else ''{\<newline>'' @
           join '',\<newline>'' (map (\<lambda>(k, v). ''  '' @ quote_json k @ '': '' @ quote_json v) fps) @
           ''\<newline>}'')"

subsection \<open>Effects\<close>

text \<open>
  A query parameter is a string or the boolean of the debug flag. An effect is the start
  of the server process, a call of \<open>killProcess(proc.pid)\<close>, the request handed to
  \<open>io.request\<close> (method, URL, query parameters, body; the headers are always empty), or a
  line written with \<open>console.log\<close> (its text without the terminal colour codes, tagged
  with the colour of the line or of its label).
\<close>

datatype qvalue = QString string | QBool bool

datatype colour = Plain | Grey | Yellow | Blue | Green

datatype effect =
    Spawn
  | Kill
  | Request string string "(string \<times> qvalue) list" string
  | Log colour string

definition port :: string where
  "port = ''8199''"

definition url :: string where
  "url = ''http://localhost:'' @ port"

subsection \<open>Waiting for the server: the race of watchdog and poller\<close>

text \<open>
  While \<open>run\<close> awaits \<open>Promise.race\<close>, the event loop delivers, in some order, data of
  the child's standard output, wake-ups of the poller's \<open>sleep(1)\<close>, the wake-up of the
  watchdog's \<open>sleep(timeout)\<close>, and the completion of the \<open>killProcess\<close> the watchdog
  awaits (\<open>True\<close>: resolved, \<open>False\<close>: rejected). The order is the environment's.
\<close>

datatype gate_event =
    StdoutData string
  | PollerWake
  | WatchdogWake
  | KillSettled bool

record gate_state =
  isConnected :: bool
  isTimedOut :: bool
  awaitingKill :: bool

definition timeout_message :: string where
  "timeout_message =
     ''Timed out waiting for development server.\<newline>'' @
     ''Are you sure you're not running another server on :'' @ port @ ''?\<newline>'' @
     ''To kill any processes running on this port on a unix system, use:\<newline>'' @
     ''$ lsof -ti :'' @ port @ '' | xargs kill -9''"

text \<open>The listener on \<open>proc.stdout\<close>.\<close>

definition on_stdout :: "string \<Rightarrow> gate_state \<Rightarrow> gate_state" where
  "on_stdout message st =
     (if includes_str message (''*** Listening on localhost:'' @ port) then
        st\<lparr>isConnected := True\<rparr>
      else if includes_str message
                (''Unable to spawn HTTP Workers, listening on port '' @ port) then
        st\<lparr>isConnected := True\<rparr>
      else st)"

text \<open>
  The race. It settles with the first of the two tasks to finish:
  \<^item> the poller, woken from \<open>sleep(1)\<close>, tests \<open>!isConnected && !isTimedOut\<close>; it sleeps
    again when the test holds and returns (the race resolves) when it does not;
  \<^item> the watchdog, woken from \<open>sleep(timeout)\<close>, returns when \<open>isConnected\<close> holds;
    otherwise it sets \<open>isTimedOut\<close>, calls \<open>killProcess\<close> and awaits it; when that
    settles it throws (the race rejects).
  The result is \<open>None\<close> when the events run out before the race settles. The effects
  are the \<open>killProcess\<close> calls made meanwhile.
\<close>

fun await_race :: "gate_event list \<Rightarrow> gate_state \<Rightarrow> ((error + unit) \<times> effect list) option" where
  "await_race [] st = None"
| "await_race (StdoutData message # evs) st = await_race evs (on_stdout message st)"
| "await_race (PollerWake # evs) st =
     (if \<not> isConnected st \<and> \<not> isTimedOut st then await_race evs st
      else Some (Inr (), []))"
| "await_race (WatchdogWake # evs) st =
     (if awaitingKill st then await_race evs st
      else if \<not> isConnected st then
        (case await_race evs (st\<lparr>isTimedOut := True, awaitingKill := True\<rparr>) of
           None \<Rightarrow> None
         | Some (r, effs) \<Rightarrow> Some (r, Kill # effs))
      else Some (Inr (), []))"
| "await_race (KillSettled ok # evs) st =
     (if awaitingKill st then
        Some (if ok then Inl (Error timeout_message) else Inl KillFailed, [])
      else await_race evs st)"

subsection \<open>The request and the streamed response\<close>

text \<open>Lines 147 to 153: the query parameters and the body of the request.\<close>

definition queryParams_of :: "string \<Rightarrow> (string \<times> string) list \<Rightarrow> (string \<times> qvalue) list" where
  "queryParams_of m fps =
     AList.update ''_debug'' (QBool True)
       (if m = ''get'' \<or> m = ''delete'' then map (\<lambda>(k, v). (k, QString v)) fps else [])"

definition bodyParams_of :: "string \<Rightarrow> (string \<times> string) list \<Rightarrow> string" where
  "bodyParams_of m fps =
     (if m = ''post'' \<or> m = ''put'' then stringify_params fps else [])"

definition request_of :: "invocation \<Rightarrow> effect" where
  "request_of call =
     Request (toUpperCase (req_method call)) (url @ ''/'' @ pathname call)
       (queryParams_of (req_method call) (functionParams call))
       (bodyParams_of (req_method call) (functionParams call))"

text \<open>
  One frame of the response stream, as \<open>io.request\<close> hands it to the callback, and what
  \<open>io.request\<close> resolves with when the stream has ended.
\<close>

record stream_event =
  event_id :: string
  event :: string
  data :: string

record response =
  events :: "stream_event list"
  statusCode :: int
  body :: string

text \<open>\<open>json.split('\n')\<close> on a parsed value: only a string has \<open>split\<close>.\<close>

definition split_of :: "json \<Rightarrow> error + string list" where
  "split_of j =
     (case j of
        JString s \<Rightarrow> Inr (split_lines s)
      | JNull \<Rightarrow> Inl (TypeError ''Cannot read properties of null (reading 'split')'')
      | _ \<Rightarrow> Inl (TypeError ''json.split is not a function''))"

text \<open>
  The callback. It is given the current value of the variable \<open>result\<close> (\<open>None\<close> is
  \<open>undefined\<close>) and returns its new value, or the exception that escapes, with the lines
  printed.
\<close>

definition callback ::
  "runtime \<Rightarrow> bool \<Rightarrow> stream_event \<Rightarrow> json option \<Rightarrow> (error + json option) \<times> effect list" where
  "callback rt verbose ev result =
     (if event ev = ''@response'' then
        (case JSON_parse rt (data ev) of
           None \<Rightarrow> (Inl (SyntaxError (data ev)), [])
         | Some j \<Rightarrow> (Inr (Some j), []))
      else if event ev = ''@stdout'' then
        (case JSON_parse rt (data ev) of
           None \<Rightarrow> (Inl (SyntaxError (data ev)), [])
         | Some j \<Rightarrow>
             (case split_of j of
                Inl e \<Rightarrow> (Inl e, [])
              | Inr ls \<Rightarrow>
                  (Inr result,
                   map (\<lambda>line. Log Grey ((if verbose then ''stdout> '' else []) @ line)) ls)))
      else if event ev = ''@stderr'' then
        (case JSON_parse rt (data ev) of
           None \<Rightarrow> (Inl (SyntaxError (data ev)), [])
         | Some j \<Rightarrow>
             (case split_of j of
                Inl e \<Rightarrow> (Inl e, [])
              | Inr ls \<Rightarrow>
                  (Inr result,
                   map (\<lambda>line. Log Yellow ((if verbose then ''stderr> '' else []) @ line)) ls)))
      else (Inr result, [Log Blue (event ev @ ''> '' @ data ev)]))"

text \<open>
  The callback runs once per frame, in the order of the list. An exception in it ends the
  command: no later frame is handled.
\<close>

fun consume ::
  "runtime \<Rightarrow> bool \<Rightarrow> stream_event list \<Rightarrow> json option \<Rightarrow> (error + json option) \<times> effect list" where
  "consume rt verbose [] result = (Inr result, [])"
| "consume rt verbose (ev # evs) result =
     (case callback rt verbose ev result of
        (Inl e, out) \<Rightarrow> (Inl e, out)
      | (Inr result', out) \<Rightarrow>
          (case consume rt verbose evs result' of
             (r, out') \<Rightarrow> (r, out @ out')))"

subsection \<open>Reconstructing the result\<close>

text \<open>Lines 184 to 191: the message of the error thrown for status 500.\<close>

definition error_message_of :: "string \<Rightarrow> string" where
  "error_message_of errorBody =
     (let errorMessage =
            (if startsWith errorBody ''Application Error:''
             then slice errorBody (length ''Application Error: '')
             else errorBody)
      in case split_lines errorMessage of [] \<Rightarrow> [] | l # _ \<Rightarrow> l)"

text \<open>\<open>result.body.toString()\<close>\<close>

definition body_of_result :: "json option \<Rightarrow> error + string" where
  "body_of_result result =
     (case result of
        None \<Rightarrow> Inl (TypeError ''Cannot read properties of undefined (reading 'body')'')
      | Some JNull \<Rightarrow> Inl (TypeError ''Cannot read properties of null (reading 'body')'')
      | Some j \<Rightarrow>
          (case property j ''body'' of
             None \<Rightarrow> Inl (TypeError ''Cannot read properties of undefined (reading 'toString')'')
           | Some JNull \<Rightarrow> Inl (TypeError ''Cannot read properties of null (reading 'toString')'')
           | Some b \<Rightarrow>
               (case String_of b of
                  Some s \<Rightarrow> Inr s
                | None \<Rightarrow>
                    Inl (TypeError
                           (case b of
                              JObject kvs \<Rightarrow> ''result.body.toString is not a function''
                            | _ \<Rightarrow> ''Cannot convert object to primitive value'')))))"

text \<open>
  \<open>'' + result.statusCode\<close>, for a \<open>result\<close> that is not \<open>null\<close>; \<open>None\<close> when the
  conversion raises a \<open>TypeError\<close>.
\<close>

definition status_text :: "json \<Rightarrow> string option" where
  "status_text j =
     (case property j ''statusCode'' of None \<Rightarrow> Some ''undefined'' | Some v \<Rightarrow> String_of v)"

text \<open>Lines 214 to 218: what is printed as the result, for the text \<open>body\<close>.\<close>

definition printed_result :: "runtime \<Rightarrow> string \<Rightarrow> string" where
  "printed_result rt b =
     (case JSON_parse rt b of
        None \<Rightarrow> b
      | Some j \<Rightarrow> if truthy j then JSON_stringify rt j else b)"

text \<open>
  Lines 182 to 220, after the stream has ended. \<open>kill_ok\<close> says whether the
  \<open>killProcess\<close> of line 205 resolves. In verbose mode the line of the status is built
  before it is printed, so a \<open>TypeError\<close> of the conversion comes after the first two
  lines.
\<close>

definition report ::
  "runtime \<Rightarrow> bool \<Rightarrow> invocation \<Rightarrow> response \<Rightarrow> json option \<Rightarrow> bool \<Rightarrow> (error + unit) \<times> effect list" where
  "report rt verbose call streamResult result kill_ok =
     (if statusCode streamResult = 500 then
        (Inl (Error (error_message_of (body streamResult))), [])
      else
        (case body_of_result result of
           Inl e \<Rightarrow> (Inl e, [])
         | Inr b \<Rightarrow>
             if \<not> kill_ok then (Inl KillFailed, [Kill])
             else if verbose then
               (case (case result of None \<Rightarrow> None | Some j \<Rightarrow> status_text j) of
                  None \<Rightarrow>
                    (Inl (TypeError ''Cannot convert object to primitive value''),
                     [Kill,
                      Log Green (''location:  '' @ url @ ''/'' @ pathname call),
                      Log Green (''method:    '' @ toUpperCase (req_method call))])
                | Some st \<Rightarrow>
                    (Inr (),
                     [Kill,
                      Log Green (''location:  '' @ url @ ''/'' @ pathname call),
                      Log Green (''method:    '' @ toUpperCase (req_method call)),
                      Log Green (''status:    '' @ st),
                      Log Green ''arguments: '',
                      Log Plain (stringify_params_pretty (functionParams call)),
                      Log Green ''result:'',
                      Log Plain (printed_result rt b)]))
             else (Inr (), [Kill, Log Plain (printed_result rt b)])))"

subsection \<open>The command\<close>

text \<open>
  The environment of one call: the events of the event loop while the race is awaited,
  what \<open>io.request\<close> resolves with (\<open>None\<close>: it rejects), and whether the final
  \<open>killProcess\<close> resolves.
\<close>

record env =
  schedule :: "gate_event list"
  reply :: "response option"
  final_kill_ok :: bool

text \<open>Lines 147 to 220: the request, the stream, the result.\<close>

definition invoke :: "runtime \<Rightarrow> bool \<Rightarrow> invocation \<Rightarrow> env \<Rightarrow> (error + unit) \<times> effect list" where
  "invoke rt verbose call e =
     (case reply e of
        None \<Rightarrow> (Inl RequestFailed, [request_of call])
      | Some streamResult \<Rightarrow>
          (case consume rt verbose (events streamResult) None of
             (Inl err, out) \<Rightarrow> (Inl err, request_of call # out)
           | (Inr result, out) \<Rightarrow>
               (case report rt verbose call streamResult result (final_kill_ok e) of
                  (r, out') \<Rightarrow> (r, request_of call # out @ out'))))"

definition initial_gate :: gate_state where
  "initial_gate = \<lparr>isConnected = False, isTimedOut = False, awaitingKill = False\<rparr>"

text \<open>
  \<open>run\<close>, from the validation of line 82 on (\<open>loadPackage\<close> has resolved). The result
  is \<open>None\<close> when the command never returns, otherwise what it throws (\<open>Inl\<close>) or that
  it returned (\<open>Inr\<close>), together with its effects in order.
\<close>

definition run :: "runtime \<Rightarrow> params \<Rightarrow> env \<Rightarrow> ((error + unit) \<times> effect list) option" where
  "run rt p e =
     (case validate p of
        Inl err \<Rightarrow> Some (Inl err, [])
      | Inr call \<Rightarrow>
          (case await_race (schedule e) initial_gate of
             None \<Rightarrow> None
           | Some (Inl err, effs) \<Rightarrow> Some (Inl err, Spawn # effs)
           | Some (Inr u, effs) \<Rightarrow>
               (case invoke rt (flags p ''v'' \<noteq> None) call e of
                  (r, effs') \<Rightarrow> Some (r, Spawn # effs @ effs'))))"

text \<open>How often \<open>killProcess\<close> was called.\<close>

definition kills :: "effect list \<Rightarrow> nat" where
  "kills effs = length (filter (\<lambda>x. x = Kill) effs)"

subsection \<open>Auxiliary notions and sample inputs\<close>

text \<open>A message of the child that the listener takes as the announcement of readiness.\<close>

definition announces_ready :: "string \<Rightarrow> bool" where
  "announces_ready message =
     (includes_str message (''*** Listening on localhost:'' @ port) \<or>
      includes_str message (''Unable to spawn HTTP Workers, listening on port '' @ port))"

text \<open>An event that leaves the race waiting as long as the server has not announced itself.\<close>

fun keeps_waiting :: "gate_event \<Rightarrow> bool" where
  "keeps_waiting PollerWake = True"
| "keeps_waiting (StdoutData message) = (\<not> announces_ready message)"
| "keeps_waiting WatchdogWake = False"
| "keeps_waiting (KillSettled ok) = False"








text \<open>An exception of the language runtime, as opposed to an error the command throws itself.\<close>

fun runtime_exception :: "error \<Rightarrow> bool" where
  "runtime_exception (TypeError t) = True"
| "runtime_exception (SyntaxError t) = True"
| "runtime_exception err = False"

text \<open>
  Sample inputs: a runtime that knows the two texts of the sample stream (and, like
  \<open>JSON.parse\<close>, rejects the text \<open>ok\<close>), parameters with a method flag, one named
  flag \<open>x\<close> and a path, parameters with named flags of several words, parameters with
  a named flag \<open>_debug\<close>, a server that
  announces itself at once, and a stream of one \<open>@stdout\<close> and one \<open>@response\<close> frame.
\<close>

definition ex_payload :: json where
  "ex_payload = JObject [(''statusCode'', JNumber ''200''), (''body'', JString ''ok'')]"

definition ex_runtime :: runtime where
  \<open>ex_runtime =
     \<lparr>JSON_parse = (\<lambda>s.
        if s = ''"hi"'' then Some (JString ''hi'')
        else if s = ''{"statusCode":200,"body":"ok"}'' then Some ex_payload
        else None),
      JSON_stringify = (\<lambda>j.
        if j = ex_payload then ''{\<newline>  "statusCode": 200,\<newline>  "body": "ok"\<newline>}''
        else ''null'')\<rparr>\<close>

definition ex_params :: "string list \<Rightarrow> string \<Rightarrow> params" where
  "ex_params ms pn = \<lparr>flags = [''m'' \<mapsto> ms], vflags = [(''x'', [''1''])], args = [pn]\<rparr>"

definition ex_params_words :: params where
  "ex_params_words =
     \<lparr>flags = Map.empty,
      vflags = [(''name'', [''John'', ''Smith'']), (''age'', [''30''])],
      args = [''/hello'']\<rparr>"


definition ex_ready :: "gate_event list" where
  "ex_ready = [PollerWake, StdoutData ''*** Listening on localhost:8199'', PollerWake]"

definition ex_stdout_frame :: stream_event where
  \<open>ex_stdout_frame = \<lparr>event_id = ''1'', event = ''@stdout'', data = ''"hi"''\<rparr>\<close>

definition ex_response_frame :: stream_event where
  \<open>ex_response_frame =
     \<lparr>event_id = ''2'', event = ''@response'', data = ''{"statusCode":200,"body":"ok"}''\<rparr>\<close>

definition ex_response :: response where
  "ex_response =
     \<lparr>events = [ex_stdout_frame, ex_response_frame], statusCode = 200, body = []\<rparr>"

section \<open>Facts about the model\<close>

subsection \<open>Strings and validation\<close>

lemma startsWith_simps [simp]:
  "startsWith s [] = True"
  "startsWith [] (c # q) = False"
  "startsWith (a # s) (c # q) = (a = c \<and> startsWith s q)"
  by (auto simp: startsWith_def)

lemma validate_Inr:
  assumes "validate p = Inr call"
  shows "req_method call = method_of p"
    and "method_of p \<in> {''get'', ''post'', ''put'', ''delete''}"
    and "functionParams call = functionParams_of (vflags p)"
    and "pathname call = normalize_pathname (pathname_arg p)"
    and "pathname_arg p \<noteq> []"
    and "\<not> startsWith (pathname_arg p) ''..''"
  using assms
  by (auto simp: validate_def Let_def supported_methods_def split: if_splits)

lemma validate_accepts:
  assumes "method_of p \<in> {''get'', ''post'', ''put'', ''delete''}"
      and "pathname_arg p \<noteq> []" and "\<not> startsWith (pathname_arg p) ''..''"
  shows "validate p = Inr \<lparr>req_method = method_of p,
                           functionParams = functionParams_of (vflags p),
                           pathname = normalize_pathname (pathname_arg p)\<rparr>"
  using assms by (auto simp: validate_def Let_def supported_methods_def)

lemma method_of_flag:
  "flags p ''m'' = Some (w # ws) \<Longrightarrow> w \<noteq> [] \<Longrightarrow> method_of p = toLowerCase w"
  by (simp add: method_of_def)

lemma ex_params_valid:
  "m \<in> {''get'', ''post'', ''put'', ''delete''} \<Longrightarrow>
   validate (ex_params [m] ''./a/b'') = Inr \<lparr>req_method = m, functionParams = [(''x'', ''1'')], pathname = ''a/b''\<rparr>"
  by (auto simp: validate_def ex_params_def method_of_def toLowerCase_def supported_methods_def
      functionParams_of_def pathname_arg_def normalize_pathname_def slice_def)

lemma update_fresh:
  "k \<notin> fst ` set al \<Longrightarrow> AList.update k v al = al @ [(k, v)]"
  by (induction al) auto


lemma functionParams_of_fold:
  "distinct (map fst acc @ map fst vfs) \<Longrightarrow>
   foldl (\<lambda>acc (key, ws). AList.update key (join '' '' ws) acc) acc vfs
     = acc @ map (\<lambda>(key, ws). (key, join '' '' ws)) vfs"
proof (induction vfs arbitrary: acc)
  case Nil
  then show ?case by simp
next
  case (Cons kv vfs)
  obtain k ws where kv: "kv = (k, ws)" by (cases kv)
  from Cons.prems kv have "k \<notin> fst ` set acc" by auto
  then have upd: "AList.update k (join '' '' ws) acc = acc @ [(k, join '' '' ws)]"
    by (rule update_fresh)
  from Cons.prems kv have "distinct (map fst (acc @ [(k, join '' '' ws)]) @ map fst vfs)"
    by auto
  from Cons.IH [OF this] show ?case by (simp add: kv upd)
qed

subsection \<open>The JSON text of the parameters reads back\<close>









subsection \<open>The race\<close>

lemma on_stdout_announces:
  "on_stdout message st = (if announces_ready message then st\<lparr>isConnected := True\<rparr> else st)"
  by (simp add: on_stdout_def announces_ready_def)

lemma await_race_waiting:
  "\<forall>ev \<in> set evs. keeps_waiting ev \<Longrightarrow>
   await_race (evs @ rest) initial_gate = await_race rest initial_gate"
proof (induction evs)
  case Nil
  then show ?case by simp
next
  case (Cons ev evs)
  then show ?case
    by (cases ev) (simp_all add: on_stdout_announces initial_gate_def)
qed

lemma await_race_kill_first:
  "await_race (WatchdogWake # KillSettled True # rest) initial_gate
     = Some (Inl (Error timeout_message), [Kill])"
  by (simp add: initial_gate_def)

lemma await_race_poller_first:
  "await_race (WatchdogWake # PollerWake # rest) initial_gate = Some (Inr (), [Kill])"
  by (simp add: initial_gate_def)

lemma await_race_ex_ready: "await_race ex_ready initial_gate = Some (Inr (), [])"
  by (simp add: ex_ready_def initial_gate_def on_stdout_def port_def)

subsection \<open>The command, phase by phase\<close>

lemma run_invalid: "validate p = Inl err \<Longrightarrow> run rt p e = Some (Inl err, [])"
  by (simp add: run_def)

lemma run_race_rejected:
  "validate p = Inr call \<Longrightarrow> await_race (schedule e) initial_gate = Some (Inl err, effs) \<Longrightarrow>
   run rt p e = Some (Inl err, Spawn # effs)"
  by (simp add: run_def)

lemma run_race_resolved:
  "validate p = Inr call \<Longrightarrow> await_race (schedule e) initial_gate = Some (Inr (), effs) \<Longrightarrow>
   run rt p e =
     Some (fst (invoke rt (flags p ''v'' \<noteq> None) call e),
           Spawn # effs @ snd (invoke rt (flags p ''v'' \<noteq> None) call e))"
  by (simp add: run_def split: prod.splits)

lemma invoke_request_first:
  "\<exists>out. snd (invoke rt v call e) = request_of call # out"
  by (simp add: invoke_def split: option.splits prod.splits sum.splits)

text \<open>
  When the watchdog's \<open>killProcess\<close> settles before the poller wakes again, the command
  ends as a timeout: one kill, the timeout error, no request.
\<close>

lemma run_timeout_kill_first:
  assumes "validate p = Inr call" and "\<forall>ev \<in> set evs. keeps_waiting ev"
      and "schedule e = evs @ WatchdogWake # KillSettled True # rest"
  shows "run rt p e = Some (Inl (Error timeout_message), [Spawn, Kill])"
proof -
  have "await_race (schedule e) initial_gate = Some (Inl (Error timeout_message), [Kill])"
    by (simp only: assms(3) await_race_waiting [OF assms(2)] await_race_kill_first)
  from run_race_rejected [OF assms(1) this] show ?thesis .
qed

text \<open>
  When the poller wakes first, it finds \<open>isTimedOut\<close> set, returns, and the race resolves:
  the command goes on to the request.
\<close>

lemma run_timeout_poller_first:
  assumes "validate p = Inr call" and "\<forall>ev \<in> set evs. keeps_waiting ev"
      and "schedule e = evs @ WatchdogWake # PollerWake # rest"
  shows "\<exists>r out. run rt p e = Some (r, Spawn # Kill # request_of call # out)"
proof -
  have "await_race (schedule e) initial_gate = Some (Inr (), [Kill])"
    by (simp only: assms(3) await_race_waiting [OF assms(2)] await_race_poller_first)
  from run_race_resolved [OF assms(1) this] invoke_request_first [of rt _ call e]
  show ?thesis by (metis append_Cons append_Nil)
qed

subsection \<open>The stream\<close>

lemma callback_keeps_result:
  "event ev \<noteq> ''@response'' \<Longrightarrow> callback rt v ev r = (Inr r', out) \<Longrightarrow> r' = r"
  by (auto simp: callback_def split: if_splits option.splits sum.splits)

lemma consume_keeps_result:
  "\<forall>ev \<in> set evs. event ev \<noteq> ''@response'' \<Longrightarrow>
   consume rt v evs r = (Inr r', out) \<Longrightarrow> r' = r"
proof (induction evs arbitrary: r out)
  case Nil
  then show ?case by simp
next
  case (Cons ev evs)
  from Cons.prems(2) obtain r1 out1 out2
    where c: "callback rt v ev r = (Inr r1, out1)" and rest: "consume rt v evs r1 = (Inr r', out2)"
    by (auto split: prod.splits sum.splits)
  from Cons.prems(1) c have "r1 = r" by (auto dest: callback_keeps_result)
  with Cons.IH [OF _ rest] Cons.prems(1) show ?case by simp
qed

lemma callback_raises_runtime_exception:
  "callback rt v ev r = (Inl err, out) \<Longrightarrow> runtime_exception err"
  by (auto simp: callback_def split_of_def split: if_splits option.splits sum.splits json.splits)

lemma consume_raises_runtime_exception:
  "consume rt v evs r = (Inl err, out) \<Longrightarrow> runtime_exception err"
proof (induction evs arbitrary: r out)
  case Nil
  then show ?case by simp
next
  case (Cons ev evs)
  then show ?case
    by (auto split: prod.splits sum.splits dest: callback_raises_runtime_exception)
qed

lemma callback_prints_only:
  "x \<in> set (snd (callback rt v ev r)) \<Longrightarrow> \<exists>c t. x = Log c t"
  by (auto simp: callback_def split: if_splits option.splits sum.splits)

lemma consume_prints_only:
  "x \<in> set (snd (consume rt v evs r)) \<Longrightarrow> \<exists>c t. x = Log c t"
proof (induction evs arbitrary: r)
  case Nil
  then show ?case by simp
next
  case (Cons ev evs)
  obtain res out where c: "callback rt v ev r = (res, out)" by (cases "callback rt v ev r")
  show ?case
  proof (cases res)
    case (Inl err)
    with Cons.prems c callback_prints_only [of x rt v ev r] show ?thesis by simp
  next
    case (Inr r')
    obtain res' out' where c': "consume rt v evs r' = (res', out')"
      by (cases "consume rt v evs r'")
    with Cons.prems c Inr have "x \<in> set out \<or> x \<in> set out'" by simp
    with c c' callback_prints_only [of x rt v ev r] Cons.IH [of r'] show ?thesis by auto
  qed
qed

lemma kills_consume: "kills (snd (consume rt v evs r)) = 0"
  using consume_prints_only [of _ rt v evs r] by (auto simp: kills_def filter_empty_conv)

lemma kills_simps [simp]:
  "kills [] = 0"
  "kills (Kill # effs) = Suc (kills effs)"
  "kills (Spawn # effs) = kills effs"
  "kills (Request m u q b # effs) = kills effs"
  "kills (Log c t # effs) = kills effs"
  "kills (effs @ effs') = kills effs + kills effs'"
  by (simp_all add: kills_def)

text \<open>
  How often \<open>killProcess\<close> is called once the race has resolved, by outcome: not at
  all when the response has status 500 or the result cannot be read, once more when the
  command succeeds.
\<close>

lemma kills_remote_error:
  assumes "validate p = Inr call"
      and "await_race (schedule e) initial_gate = Some (Inr (), effs)"
      and "reply e = Some streamResult" and "statusCode streamResult = 500"
      and "consume rt (flags p ''v'' \<noteq> None) (events streamResult) None = (Inr result, out)"
  shows "run rt p e =
           Some (Inl (Error (error_message_of (body streamResult))),
                 Spawn # effs @ request_of call # out)"
    and "kills (Spawn # effs @ request_of call # out) = kills effs"
proof -
  show "run rt p e =
           Some (Inl (Error (error_message_of (body streamResult))),
                 Spawn # effs @ request_of call # out)"
    by (simp add: run_race_resolved [OF assms(1,2)] invoke_def assms(3,4,5) report_def
        del: not_None_eq)
  from kills_consume [of rt "flags p ''v'' \<noteq> None" "events streamResult" None]
  have "kills out = 0" by (simp only: assms(5) snd_conv)
  then show "kills (Spawn # effs @ request_of call # out) = kills effs"
    by (simp add: request_of_def)
qed

lemma kills_success:
  assumes "validate p = Inr call"
      and "await_race (schedule e) initial_gate = Some (Inr (), effs)"
      and "run rt p e = Some (Inr (), effs')"
  shows "kills effs' = Suc (kills effs)"
proof -
  let ?v = "flags p ''v'' \<noteq> None"
  from assms(3) run_race_resolved [OF assms(1,2), of rt]
  have i: "fst (invoke rt ?v call e) = Inr ()"
    and effs': "effs' = Spawn # effs @ snd (invoke rt ?v call e)"
    by simp_all
  from i obtain sr where sr: "reply e = Some sr"
    by (cases "reply e") (simp_all add: invoke_def)
  obtain res out where c: "consume rt ?v (events sr) None = (res, out)"
    by (cases "consume rt ?v (events sr) None")
  from i sr c obtain result where res: "res = Inr result"
    by (cases res) (simp_all add: invoke_def)
  from kills_consume [of rt ?v "events sr" None] c have out: "kills out = 0" by simp
  obtain r out' where rep: "report rt ?v call sr result (final_kill_ok e) = (r, out')"
    by (cases "report rt ?v call sr result (final_kill_ok e)")
  from i sr c res rep have r: "r = Inr ()" by (simp add: invoke_def)
  from rep r have "kills out' = 1"
    by (auto simp: report_def split: if_splits sum.splits option.splits)
  with effs' sr c res rep out show ?thesis
    by (simp add: invoke_def request_of_def)
qed






lemma consume_append:
  "consume rt v (xs @ ys) r =
     (case consume rt v xs r of
        (Inl err, out) \<Rightarrow> (Inl err, out)
      | (Inr r', out) \<Rightarrow> (case consume rt v ys r' of (x, out') \<Rightarrow> (x, out @ out')))"
  by (induction xs arbitrary: r) (auto split: prod.splits sum.splits)

section \<open>The claims\<close>

text \<open>
  C1. Claimed: on every run that reaches the spawn, \<open>killProcess\<close> is called exactly once,
  whatever the outcome. On the code this fails for a response with status 500: the error
  is thrown at line 192, before the \<open>killProcess\<close> of line 205, so the child is never
  killed (as it is not when \<open>result.body\<close> cannot be read at line 196).
\<close>

theorem remote_error_skips_kill:
  "run rt (ex_params [''get''] ''./a/b'')
     \<lparr>schedule = ex_ready,
      reply = Some \<lparr>events = [], statusCode = 500,
                    body = ''Application Error: boom\<newline>stack line 2''\<rparr>,
      final_kill_ok = True\<rparr>
   = Some (Inl (Error ''boom''),
           [Spawn, Request ''GET'' ''http://localhost:8199/a/b''
                     [(''x'', QString ''1''), (''_debug'', QBool True)] []])
   \<and> kills [Spawn, Request ''GET'' ''http://localhost:8199/a/b''
                     [(''x'', QString ''1''), (''_debug'', QBool True)] []] = 0"
  by (simp add: run_def ex_params_valid await_race_ex_ready invoke_def report_def
      error_message_of_def slice_def request_of_def toUpperCase_def url_def port_def
      queryParams_of_def bodyParams_of_def kills_def)

text \<open>
  C2 (amended). When the stream ends with a status other than 500 and no \<open>@response\<close>
  frame was delivered, the command fails, and it fails with an exception of the language
  runtime, not with an error it throws itself: if every frame was handled without an
  exception, it is the \<open>TypeError\<close> of reading \<open>body\<close> from the undefined \<open>result\<close>.
\<close>

theorem missing_response_is_a_TypeError:
  assumes "validate p = Inr call"
      and "await_race (schedule e) initial_gate = Some (Inr (), effs)"
      and "reply e = Some streamResult"
      and "statusCode streamResult \<noteq> 500"
      and "\<forall>ev \<in> set (events streamResult). event ev \<noteq> ''@response''"
  shows "(\<exists>err. map_option fst (run rt p e) = Some (Inl err) \<and> runtime_exception err) \<and>
         (\<forall>result out.
            consume rt (flags p ''v'' \<noteq> None) (events streamResult) None = (Inr result, out) \<longrightarrow>
            map_option fst (run rt p e) =
              Some (Inl (TypeError ''Cannot read properties of undefined (reading 'body')'')))"
proof -
  let ?v = "flags p ''v'' \<noteq> None"
  have run: "map_option fst (run rt p e) = Some (fst (invoke rt ?v call e))"
    by (simp add: run_race_resolved [OF assms(1,2)])
  obtain r out where c: "consume rt ?v (events streamResult) None = (r, out)"
    by (cases "consume rt ?v (events streamResult) None")
  show ?thesis
  proof (cases r)
    case (Inl err)
    with c have "runtime_exception err" by (auto dest: consume_raises_runtime_exception)
    moreover from c Inl have "fst (invoke rt ?v call e) = Inl err"
      by (simp add: invoke_def assms(3))
    ultimately show ?thesis using c Inl run by auto
  next
    case (Inr result)
    with c assms(5) have "result = None" by (auto dest: consume_keeps_result)
    with c Inr have "fst (invoke rt ?v call e) =
        Inl (TypeError ''Cannot read properties of undefined (reading 'body')'')"
      by (simp add: invoke_def assms(3,4) report_def body_of_result_def)
    with run have "map_option fst (run rt p e) =
        Some (Inl (TypeError ''Cannot read properties of undefined (reading 'body')''))"
      by (simp only:)
    moreover have "runtime_exception
        (TypeError ''Cannot read properties of undefined (reading 'body')'')"
      by simp
    ultimately show ?thesis by blast
  qed
qed

theorem missing_response_is_a_TypeError_witness:
  "validate (ex_params [''get''] ''./a/b'') =
     Inr \<lparr>req_method = ''get'', functionParams = [(''x'', ''1'')], pathname = ''a/b''\<rparr> \<and>
   await_race ex_ready initial_gate = Some (Inr (), []) \<and>
   consume ex_runtime False [ex_stdout_frame] None = (Inr None, [Log Grey ''hi'']) \<and>
   map_option fst
     (run ex_runtime (ex_params [''get''] ''./a/b'')
        \<lparr>schedule = ex_ready,
         reply = Some \<lparr>events = [ex_stdout_frame], statusCode = 200, body = []\<rparr>,
         final_kill_ok = True\<rparr>)
     = Some (Inl (TypeError ''Cannot read properties of undefined (reading 'body')''))"
proof -
  let ?sr = "\<lparr>events = [ex_stdout_frame], statusCode = 200, body = []\<rparr>"
  let ?e = "\<lparr>schedule = ex_ready, reply = Some ?sr, final_kill_ok = True\<rparr>"
  have v: "validate (ex_params [''get''] ''./a/b'') =
      Inr \<lparr>req_method = ''get'', functionParams = [(''x'', ''1'')], pathname = ''a/b''\<rparr>"
    by (simp add: ex_params_valid)
  have g: "await_race (schedule ?e) initial_gate = Some (Inr (), [])"
    by (simp add: await_race_ex_ready)
  have r: "reply ?e = Some ?sr" by simp
  have s: "statusCode ?sr \<noteq> 500" by simp
  have n: "\<forall>ev \<in> set (events ?sr). event ev \<noteq> ''@response''"
    by (simp add: ex_stdout_frame_def)
  have f: "flags (ex_params [''get''] ''./a/b'') ''v'' = None" by (simp add: ex_params_def)
  have c: "consume ex_runtime False [ex_stdout_frame] None = (Inr None, [Log Grey ''hi''])"
    by (simp add: callback_def ex_stdout_frame_def ex_runtime_def split_of_def)
  from missing_response_is_a_TypeError [OF v g r s n, of ex_runtime] c f
  have "map_option fst (run ex_runtime (ex_params [''get''] ''./a/b'') ?e)
          = Some (Inl (TypeError ''Cannot read properties of undefined (reading 'body')''))"
    by simp
  with v g c show ?thesis by simp
qed

theorem missing_response_counterexample:
  "run ex_runtime (ex_params [''get''] ''./a/b'')
     \<lparr>schedule = ex_ready,
      reply = Some \<lparr>events = [], statusCode = 200, body = []\<rparr>,
      final_kill_ok = True\<rparr>
   = Some (Inl (TypeError ''Cannot read properties of undefined (reading 'body')''),
           [Spawn, Request ''GET'' ''http://localhost:8199/a/b''
                     [(''x'', QString ''1''), (''_debug'', QBool True)] []])"
  by (simp add: run_def ex_params_valid await_race_ex_ready invoke_def report_def
      body_of_result_def request_of_def toUpperCase_def url_def port_def
      queryParams_of_def bodyParams_of_def)

text \<open>
  C3. Claimed: a method flag \<open>del\<close> (in any case) is normalised to \<open>delete\<close> and the
  command goes on as a DELETE. On the code the variable is a \<open>const\<close>: the assignment
  raises a \<open>TypeError\<close> and the command ends there, before anything is spawned.
\<close>

theorem del_raises_TypeError:
  "run rt \<lparr>flags = fl(''m'' \<mapsto> ''del'' # ws), vflags = vfs, args = as\<rparr> e
     = Some (Inl (TypeError ''Assignment to constant variable.''), [])
   \<and> run rt \<lparr>flags = fl(''m'' \<mapsto> ''DEL'' # ws), vflags = vfs, args = as\<rparr> e
     = Some (Inl (TypeError ''Assignment to constant variable.''), [])"
  by (simp add: run_def validate_def method_of_def toLowerCase_def supported_methods_def)

text \<open>
  C4 (amended). For every non-empty path argument that does not start with \<open>..\<close> (and
  an accepted method), the argument is accepted and the path of the request is the argument
  without at most one leading \<open>.\<close> and then at most one leading \<open>/\<close>; each of the two is
  stripped whenever it is there. So \<open>./a/b\<close>, \<open>/a/b\<close> and \<open>a/b\<close> give \<open>a/b\<close>, and
  \<open>//a/b\<close> gives \<open>/a/b\<close>.
\<close>

theorem pathname_loses_one_dot_one_slash:
  assumes "pathname_arg p \<noteq> []" and "\<not> startsWith (pathname_arg p) ''..''"
      and "method_of p \<in> {''get'', ''post'', ''put'', ''delete''}"
  shows "\<exists>call dot slash.
           validate p = Inr call \<and>
           pathname_arg p = dot @ slash @ pathname call \<and>
           (dot = [] \<or> dot = ''.'') \<and> (slash = [] \<or> slash = ''/'') \<and>
           (dot = [] \<and> slash = [] \<longrightarrow> \<not> startsWith (pathname_arg p) ''.'') \<and>
           (slash = [] \<longrightarrow> \<not> startsWith (pathname call) ''/'')"
proof -
  let ?pn = "pathname_arg p"
  let ?call = "\<lparr>req_method = method_of p, functionParams = functionParams_of (vflags p),
                 pathname = normalize_pathname ?pn\<rparr>"
  have v: "validate p = Inr ?call"
    by (rule validate_accepts [OF assms(3) assms(1) assms(2)])
  obtain c cs where pn: "?pn = c # cs" using assms(1) by (cases ?pn) auto
  have "\<exists>dot slash.
           ?pn = dot @ slash @ normalize_pathname ?pn \<and>
           (dot = [] \<or> dot = ''.'') \<and> (slash = [] \<or> slash = ''/'') \<and>
           (dot = [] \<and> slash = [] \<longrightarrow> \<not> startsWith ?pn ''.'') \<and>
           (slash = [] \<longrightarrow> \<not> startsWith (normalize_pathname ?pn) ''/'')"
  proof (cases "c = CHR ''.''")
    case True
    show ?thesis
    proof (cases cs)
      case Nil
      with True pn show ?thesis
        by (intro exI [of _ "''.''"] exI [of _ "[]"]) (simp add: normalize_pathname_def slice_def)
    next
      case (Cons d ds)
      show ?thesis
      proof (cases "d = CHR ''/''")
        case True
        with \<open>c = CHR ''.''\<close> Cons pn show ?thesis
          by (intro exI [of _ "''.''"] exI [of _ "''/''"])
             (simp add: normalize_pathname_def slice_def)
      next
        case False
        with \<open>c = CHR ''.''\<close> Cons pn show ?thesis
          by (intro exI [of _ "''.''"] exI [of _ "[]"])
             (simp add: normalize_pathname_def slice_def)
      qed
    qed
  next
    case False
    show ?thesis
    proof (cases "c = CHR ''/''")
      case True
      with pn show ?thesis
        by (intro exI [of _ "[]"] exI [of _ "''/''"])
           (simp add: normalize_pathname_def slice_def)
    next
      case notslash: False
      with False pn show ?thesis
        by (intro exI [of _ "[]"] exI [of _ "[]"])
           (simp add: normalize_pathname_def slice_def)
    qed
  qed
  with v show ?thesis by (simp del: startsWith_simps)
qed

theorem pathname_loses_one_dot_one_slash_witness:
  "pathname_arg (ex_params [''get''] ''./a/b'') \<noteq> [] \<and>
   \<not> startsWith (pathname_arg (ex_params [''get''] ''./a/b'')) ''..'' \<and>
   method_of (ex_params [''get''] ''./a/b'') \<in> {''get'', ''post'', ''put'', ''delete''} \<and>
   pathname_arg (ex_params [''get''] ''./a/b'') = ''./a/b'' \<and>
   (\<exists>call. validate (ex_params [''get''] ''./a/b'') = Inr call \<and> pathname call = ''a/b'')"
proof -
  have a: "pathname_arg (ex_params [''get''] ''./a/b'') \<noteq> []"
    and b: "\<not> startsWith (pathname_arg (ex_params [''get''] ''./a/b'')) ''..''"
    and c: "method_of (ex_params [''get''] ''./a/b'') \<in> {''get'', ''post'', ''put'', ''delete''}"
    and d: "pathname_arg (ex_params [''get''] ''./a/b'') = ''./a/b''"
    by (simp_all add: ex_params_def pathname_arg_def method_of_def toLowerCase_def)
  from pathname_loses_one_dot_one_slash [OF a b c]
  obtain call where "validate (ex_params [''get''] ''./a/b'') = Inr call" by blast
  moreover from this have "pathname call = ''a/b''" by (auto simp: ex_params_valid)
  ultimately show ?thesis using a b c d by blast
qed

theorem double_slash_counterexample:
  "normalize_pathname ''//a/b'' \<noteq> ''a/b'' \<and>
   normalize_pathname ''//a/b'' = ''/a/b'' \<and>
   validate (ex_params [''get''] ''//a/b'')
     = Inr \<lparr>req_method = ''get'', functionParams = [(''x'', ''1'')], pathname = ''/a/b''\<rparr>"
  by (simp add: validate_def ex_params_def method_of_def toLowerCase_def supported_methods_def
      functionParams_of_def pathname_arg_def normalize_pathname_def slice_def)

text \<open>The three paths of the claim.\<close>

lemma normalize_pathname_examples:
  "normalize_pathname ''./a/b'' = ''a/b''"
  "normalize_pathname ''/a/b'' = ''a/b''"
  "normalize_pathname ''a/b'' = ''a/b''"
  by (simp_all add: normalize_pathname_def slice_def)

text \<open>
  C5. Claimed: when the server never announces itself within the timeout, the child is
  killed, the timeout error is raised and no request is sent. On the code the watchdog
  sets \<open>isTimedOut\<close> before it awaits \<open>killProcess\<close>; the poller, woken while the kill
  is pending, leaves its loop and returns, which resolves the race: the command sends the
  request after all (here it is refused, the server being gone).
\<close>

theorem timeout_still_sends_request:
  "run rt (ex_params [''get''] ''./a/b'')
     \<lparr>schedule = [PollerWake, WatchdogWake, PollerWake, KillSettled True],
      reply = None, final_kill_ok = True\<rparr>
   = Some (Inl RequestFailed,
           [Spawn, Kill,
            Request ''GET'' ''http://localhost:8199/a/b''
              [(''x'', QString ''1''), (''_debug'', QBool True)] []])"
  by (simp add: run_def ex_params_valid initial_gate_def invoke_def
      request_of_def toUpperCase_def url_def port_def queryParams_of_def bodyParams_of_def)

text \<open>
  C6. Claimed: for status 500 the message is the body without the prefix
  \<open>Application Error: \<close> (when the body starts with it), cut to its first line. The code
  tests for \<open>Application Error:\<close>, without the space, and then drops the length of the
  prefix with the space: a body that has the colon but not the space loses one character
  of its message.
\<close>

theorem prefix_without_space_loses_a_character:
  "run rt (ex_params [''get''] ''./a/b'')
     \<lparr>schedule = ex_ready,
      reply = Some \<lparr>events = [], statusCode = 500, body = ''Application Error:boom''\<rparr>,
      final_kill_ok = True\<rparr>
   = Some (Inl (Error ''oom''),
           [Spawn, Request ''GET'' ''http://localhost:8199/a/b''
                     [(''x'', QString ''1''), (''_debug'', QBool True)] []])"
  by (simp add: run_def ex_params_valid await_race_ex_ready invoke_def report_def
      error_message_of_def slice_def request_of_def toUpperCase_def url_def port_def
      queryParams_of_def bodyParams_of_def)

text \<open>Where the claim holds: the prefix with its space, or no prefix at all.\<close>

lemma first_line:
  "(case split_lines s of [] \<Rightarrow> [] | l # _ \<Rightarrow> l) = takeWhile (\<lambda>c. c \<noteq> CHR 0x0A) s"
  by (induction s) (auto split: list.splits)

lemma error_message_of_prefixed:
  "error_message_of (''Application Error: '' @ m) = takeWhile (\<lambda>c. c \<noteq> CHR 0x0A) m"
  by (simp add: error_message_of_def slice_def first_line)

lemma error_message_of_plain:
  "\<not> startsWith b ''Application Error:'' \<Longrightarrow>
   error_message_of b = takeWhile (\<lambda>c. c \<noteq> CHR 0x0A) b"
  by (simp add: error_message_of_def first_line del: startsWith_simps)

lemma error_message_of_boom:
  "error_message_of ''Application Error: boom\<newline>stack line 2'' = ''boom''"
  by (simp add: error_message_of_def slice_def)




text \<open>The quoting at work: a quote, a line feed, a backslash and a control character.\<close>

lemma stringify_params_escapes:
  \<open>stringify_params [(''q'', [CHR 0x22, CHR 0x0A, CHR 0x5C, CHR 0x01])]
     = ''{"q":"'' @ [CHR 0x5C, CHR 0x22, CHR 0x5C, CHR ''n'', CHR 0x5C, CHR 0x5C] @
       [CHR 0x5C] @ ''u0001"}''\<close>
  by (simp add: stringify_params_def quote_json_def escape_char_def hex_digit_def)

text \<open>
  C8 (amended). For every non-empty value of the method flag outside \<open>get\<close>, \<open>post\<close>,
  \<open>put\<close>, \<open>delete\<close>, \<open>del\<close> (in any case), and for a missing or empty path argument
  (the method not being \<open>del\<close>), the command throws an \<open>Error\<close> with the message of
  the failed check, and nothing has been spawned. (An empty value of the method flag
  counts as no value: the method is \<open>get\<close>.)
\<close>

theorem invalid_arguments_spawn_nothing:
  assumes "(\<exists>w ws. flags p ''m'' = Some (w # ws) \<and> w \<noteq> [] \<and>
                   toLowerCase w \<notin> set supported_methods) \<or>
           (pathname_arg p = [] \<and> method_of p \<noteq> ''del'')"
  shows \<open>run rt p e =
           Some (Inl (Error
                   (if method_of p \<notin> set supported_methods
                    then ''Method "'' @ method_of p @ ''" not supported.''
                    else ''Please provide a pathname as the first argument.\<newline>'' @
                         ''Use "/" to execute the root method (index.js)'')), [])\<close>
proof -
  from assms have "method_of p \<notin> set supported_methods \<or>
      (pathname_arg p = [] \<and> method_of p \<noteq> ''del'')"
    by (auto simp: method_of_flag)
  then show ?thesis
    by (auto simp: run_def validate_def Let_def)
qed

theorem invalid_arguments_spawn_nothing_witness:
  \<open>flags (ex_params [''PATCH''] ''./a/b'') ''m'' = Some [''PATCH''] \<and>
   toLowerCase ''PATCH'' = ''patch'' \<and>
   ''patch'' \<notin> set supported_methods \<and>
   run ex_runtime (ex_params [''PATCH''] ''./a/b'')
     \<lparr>schedule = ex_ready, reply = Some ex_response, final_kill_ok = True\<rparr>
   = Some (Inl (Error ''Method "patch" not supported.''), [])\<close>
proof -
  have f: "flags (ex_params [''PATCH''] ''./a/b'') ''m'' = Some [''PATCH'']"
    by (simp add: ex_params_def)
  have l: "toLowerCase ''PATCH'' = ''patch''" by (simp add: toLowerCase_def)
  have n: "''patch'' \<notin> set supported_methods" by (simp add: supported_methods_def)
  have m: "method_of (ex_params [''PATCH''] ''./a/b'') = ''patch''"
    by (simp add: method_of_flag [OF f] l)
  have "(\<exists>w ws. flags (ex_params [''PATCH''] ''./a/b'') ''m'' = Some (w # ws) \<and> w \<noteq> [] \<and>
                   toLowerCase w \<notin> set supported_methods) \<or>
        (pathname_arg (ex_params [''PATCH''] ''./a/b'') = [] \<and>
         method_of (ex_params [''PATCH''] ''./a/b'') \<noteq> ''del'')"
    using f l n by simp
  from invalid_arguments_spawn_nothing [OF this, of ex_runtime] m n f l
  show ?thesis by simp
qed

theorem empty_method_counterexample:
  "run ex_runtime (ex_params [[]] ''./a/b'')
     \<lparr>schedule = ex_ready, reply = Some ex_response, final_kill_ok = True\<rparr>
   = Some (Inr (),
           [Spawn,
            Request ''GET'' ''http://localhost:8199/a/b''
              [(''x'', QString ''1''), (''_debug'', QBool True)] [],
            Log Grey ''hi'', Kill, Log Plain ''ok''])"
  by (simp add: run_def validate_def ex_params_def method_of_def toLowerCase_def
      supported_methods_def functionParams_of_def pathname_arg_def normalize_pathname_def
      slice_def await_race_ex_ready invoke_def report_def ex_response_def ex_stdout_frame_def
      ex_response_frame_def callback_def ex_runtime_def ex_payload_def split_of_def
      body_of_result_def printed_result_def request_of_def toUpperCase_def url_def port_def
      queryParams_of_def bodyParams_of_def)




text \<open>
  A payload whose \<open>body\<close> is an object with a key \<open>toString\<close> of its own: the conversion
  of line 196 raises a \<open>TypeError\<close>, and the command fails before the kill.
\<close>

lemma body_with_own_toString:
  "body_of_result (Some (JObject [(''body'', JObject [(''toString'', JString ''x'')])]))
     = Inl (TypeError ''result.body.toString is not a function'')"
  by (simp add: body_of_result_def)

text \<open>
  C10. Each named flag contributes one entry to the parameters of the call: its words
  joined with single spaces. (The keys of \<open>params.vflags\<close>, those of an object, are
  distinct.)
\<close>

theorem vflag_words_joined:
  assumes "validate p = Inr call" and "distinct (map fst (vflags p))"
  shows "functionParams call = map (\<lambda>(key, ws). (key, join '' '' ws)) (vflags p)"
  using functionParams_of_fold [of "[]" "vflags p"] assms(2) validate_Inr(3) [OF assms(1)]
  by (simp add: functionParams_of_def)

theorem vflag_words_joined_witness:
  "validate ex_params_words =
     Inr \<lparr>req_method = ''get'',
          functionParams = [(''name'', ''John Smith''), (''age'', ''30'')],
          pathname = ''hello''\<rparr> \<and>
   distinct (map fst (vflags ex_params_words)) \<and>
   map (\<lambda>(key, ws). (key, join '' '' ws)) (vflags ex_params_words)
     = [(''name'', ''John Smith''), (''age'', ''30'')]"
proof -
  have v: "validate ex_params_words =
     Inr \<lparr>req_method = ''get'',
          functionParams = [(''name'', ''John Smith''), (''age'', ''30'')],
          pathname = ''hello''\<rparr>"
    by (simp add: validate_def ex_params_words_def method_of_def toLowerCase_def
        supported_methods_def functionParams_of_def pathname_arg_def normalize_pathname_def
        slice_def)
  have d: "distinct (map fst (vflags ex_params_words))"
    by (simp add: ex_params_words_def)
  from vflag_words_joined [OF v d] v d show ?thesis by simp
qed

end
